theory Spec2Isabelle
  imports Complex_Main "HOL-Library.Sublist"
begin

section \<open>Data model (types.ts)\<close>

text \<open>
  The TypeScript type \<open>number\<close> is modelled by exact rationals: the IEEE-754 rounding of
  the JavaScript runtime is abstracted away, every division of the source is guarded
  against a zero divisor by the source itself.  Strings are byte strings (UTF-8).
  Record fields carry a prefix where several interfaces share a field name
  (\<open>id\<close>, \<open>name\<close>, \<open>status\<close>).
\<close>

type_synonym number = rat

datatype PaymentStatus = UNPAID | PARTIAL | PAID

datatype ShippingStatus = PENDING | SHIPPED | RTS | CANCELLED

datatype PaymentMethod = GCASH | MAYA | TIKTOK | GOTYME | SEABANK | BPI | CASH

datatype BaleStatus = Ordered | Arrived | OnSale | SoldOut

record Product =
  p_id :: string
  p_name :: string
  brand :: string
  baleBatch :: string
  costPrice :: number
  sellingPrice :: number
  stock :: number

record Customer =
  c_id :: string
  c_username :: string
  isVIP :: bool
  vipTickets :: number
  isBlacklisted :: bool
  totalSpent :: number
  orderCount :: number

record Order =
  o_id :: string
  sessionId :: string
  customerId :: string
  customerUsername :: string
  productId :: string
  productName :: string
  quantity :: number
  totalPrice :: number
  isFreebie :: bool
  paymentStatus :: PaymentStatus
  shippingStatus :: ShippingStatus
  paymentMethod :: "PaymentMethod option"
  referenceNumber :: "string option"
  amountPaid :: number
  createdAt :: number
  usedVipTicket :: "bool option"
  logs :: "string list option"

record LiveSession =
  s_id :: string
  s_name :: string
  s_date :: string
  totalSales :: number
  totalOrders :: number
  isOpen :: bool

record Bale =
  b_id :: string
  b_name :: string
  b_status :: BaleStatus
  cost :: number
  itemCount :: number

section \<open>Entity store (services/dbService.ts)\<close>

text \<open>
  The store keeps one serialized collection per key in localStorage; \<open>get\<close> parses a
  fresh copy and \<open>set\<close> writes the whole collection back.  The model is the record of
  the current collections; every mutator takes the store and returns the new one.  The
  mirror writes to the remote tables are fire-and-forget and never read back by these
  functions, so they are not part of the state.
\<close>

record DB =
  products :: "Product list"
  orders :: "Order list"
  customers :: "Customer list"
  bales :: "Bale list"

text \<open>\<open>Array.prototype.findIndex\<close>: the first index whose element satisfies the
  predicate; \<open>None\<close> stands for the result \<open>-1\<close>.\<close>

primrec findIndex :: "('a \<Rightarrow> bool) \<Rightarrow> 'a list \<Rightarrow> nat option" where
  "findIndex P [] = None"
| "findIndex P (x # xs) = (if P x then Some 0 else map_option Suc (findIndex P xs))"

text \<open>A value of type \<open>string | null\<close> used as a condition: \<open>null\<close> and the empty
  string are falsy.\<close>

definition truthy :: "string option \<Rightarrow> bool" where
  "truthy v = (case v of None \<Rightarrow> False | Some x \<Rightarrow> x \<noteq> [])"

definition updateProduct :: "Product \<Rightarrow> DB \<Rightarrow> DB" where
  "updateProduct product s =
     (case findIndex (\<lambda>p. p_id p = p_id product) (products s) of
        Some index \<Rightarrow> s\<lparr>products := (products s)[index := product]\<rparr>
      | None \<Rightarrow> s\<lparr>products := products s @ [product]\<rparr>)"

definition updateCustomer :: "Customer \<Rightarrow> DB \<Rightarrow> DB" where
  "updateCustomer customer s =
     (case findIndex (\<lambda>c. c_id c = c_id customer) (customers s) of
        Some index \<Rightarrow> s\<lparr>customers := (customers s)[index := customer]\<rparr>
      | None \<Rightarrow> s\<lparr>customers := customers s @ [customer]\<rparr>)"

text \<open>\<open>getOrCreateCustomer\<close>: \<open>now\<close> is the decimal text of \<open>Date.now()\<close>.  The
  branch for legacy customers whose \<open>vipTickets\<close> is \<open>undefined\<close> cannot be taken
  by a value of the interface \<open>Customer\<close>, whose field is a number.\<close>

definition getOrCreateCustomer :: "string \<Rightarrow> string \<Rightarrow> DB \<Rightarrow> Customer \<times> DB" where
  "getOrCreateCustomer now username s =
     (case find (\<lambda>c. c_username c = username) (customers s) of
        Some customer \<Rightarrow> (customer, s)
      | None \<Rightarrow>
          (let customer = \<lparr>c_id = ''c_'' @ now, c_username = username, isVIP = False,
                             vipTickets = 0, isBlacklisted = False, totalSpent = 0,
                             orderCount = 0\<rparr>
           in (customer, s\<lparr>customers := customers s @ [customer]\<rparr>)))"

text \<open>The sold count of a bale, as \<open>refreshBaleStatus\<close> computes it.\<close>

definition soldCount :: "string \<Rightarrow> DB \<Rightarrow> number" where
  "soldCount baleId s =
     (let baleProductIds = map p_id (filter (\<lambda>p. baleBatch p = baleId) (products s))
      in foldl (\<lambda>sum ord. sum + quantity ord) 0
           (filter (\<lambda>ord. productId ord \<in> set baleProductIds \<and> shippingStatus ord \<noteq> CANCELLED)
              (orders s)))"

definition newBaleStatus :: "number \<Rightarrow> Bale \<Rightarrow> BaleStatus" where
  "newBaleStatus sold bale =
     (if sold \<ge> itemCount bale \<and> itemCount bale > 0 then SoldOut
      else if sold > 0 \<and> sold < itemCount bale then
        (if b_status bale = Ordered \<or> b_status bale = Arrived \<or> b_status bale = SoldOut
         then OnSale else b_status bale)
      else b_status bale)"

definition refreshBaleStatus :: "string \<Rightarrow> DB \<Rightarrow> DB" where
  "refreshBaleStatus baleId s =
     (case findIndex (\<lambda>b. b_id b = baleId) (bales s) of
        None \<Rightarrow> s
      | Some index \<Rightarrow>
          (let bale = bales s ! index;
               newStatus = newBaleStatus (soldCount baleId s) bale
           in if newStatus \<noteq> b_status bale
              then s\<lparr>bales := (bales s)[index := bale\<lparr>b_status := newStatus\<rparr>]\<rparr>
              else s))"

text \<open>\<open>addOrder\<close>.  The product list is re-read after the order has been stored; the
  stock of the first product with the order's product id is decremented unless the
  order is a freebie.\<close>

definition addOrder :: "string \<Rightarrow> Order \<Rightarrow> DB \<Rightarrow> DB" where
  "addOrder now order s =
     (let s1 = s\<lparr>orders := orders s @ [order]\<rparr>;
          (s2, baleIdToUpdate) =
             (if \<not> isFreebie order then
                (case findIndex (\<lambda>p. p_id p = productId order) (products s1) of
                   Some pIndex \<Rightarrow>
                     (let p = products s1 ! pIndex;
                          p' = p\<lparr>stock := stock p - quantity order\<rparr>
                      in (s1\<lparr>products := (products s1)[pIndex := p']\<rparr>, Some (baleBatch p')))
                 | None \<Rightarrow> (s1, None))
              else
                (case find (\<lambda>p. p_id p = productId order) (products s1) of
                   Some product \<Rightarrow> (s1, Some (baleBatch product))
                 | None \<Rightarrow> (s1, None)));
          (customer, s3) = getOrCreateCustomer now (customerUsername order) s2;
          customer' = customer\<lparr>orderCount := orderCount customer + quantity order,
                                totalSpent := totalSpent customer + totalPrice order\<rparr>;
          s4 = updateCustomer customer' s3
      in if truthy baleIdToUpdate then refreshBaleStatus (the baleIdToUpdate) s4 else s4)"

definition returnsStock :: "Order \<Rightarrow> Order \<Rightarrow> bool" where
  "returnsStock order oldOrder =
     ((shippingStatus order = CANCELLED \<or> shippingStatus order = RTS) \<and>
      (shippingStatus oldOrder \<noteq> CANCELLED \<and> shippingStatus oldOrder \<noteq> RTS))"

definition updateOrder :: "Order \<Rightarrow> DB \<Rightarrow> DB" where
  "updateOrder order s =
     (case findIndex (\<lambda>ord. o_id ord = o_id order) (orders s) of
        None \<Rightarrow> s
      | Some index \<Rightarrow>
          (let oldOrder = orders s ! index;
               (s1, baleIdToUpdate) =
                  (if returnsStock order oldOrder then
                     (case findIndex (\<lambda>p. p_id p = productId order) (products s) of
                        Some pIndex \<Rightarrow>
                          (let p = products s ! pIndex;
                               p' = p\<lparr>stock := stock p + quantity order\<rparr>
                           in (s\<lparr>products := (products s)[pIndex := p']\<rparr>, Some (baleBatch p')))
                      | None \<Rightarrow> (s, None))
                   else (s, None));
               s2 = s1\<lparr>orders := (orders s1)[index := order]\<rparr>
           in if truthy baleIdToUpdate then refreshBaleStatus (the baleIdToUpdate) s2 else s2))"

definition deleteOrder :: "string \<Rightarrow> DB \<Rightarrow> DB" where
  "deleteOrder ident s =
     (let baleIdToUpdate =
            (case find (\<lambda>ord. o_id ord = ident) (orders s) of
               Some order \<Rightarrow>
                 (case find (\<lambda>p. p_id p = productId order) (products s) of
                    Some product \<Rightarrow> Some (baleBatch product)
                  | None \<Rightarrow> None)
             | None \<Rightarrow> None);
          s1 = s\<lparr>orders := filter (\<lambda>ord. o_id ord \<noteq> ident) (orders s)\<rparr>
      in if truthy baleIdToUpdate then refreshBaleStatus (the baleIdToUpdate) s1 else s1)"

text \<open>Two abbreviations used to state the effect of the mutators: the product list with
  the stock of the first product of a given id changed by \<open>d\<close>, and the customer list
  after \<open>addOrder\<close> has credited an order.\<close>

definition stockAdjusted :: "string \<Rightarrow> number \<Rightarrow> Product list \<Rightarrow> Product list" where
  "stockAdjusted pid d ps =
     (case findIndex (\<lambda>p. p_id p = pid) ps of
        Some j \<Rightarrow> ps[j := (ps ! j)\<lparr>stock := stock (ps ! j) + d\<rparr>]
      | None \<Rightarrow> ps)"

definition creditedCustomers :: "string \<Rightarrow> Order \<Rightarrow> Customer list \<Rightarrow> Customer list" where
  "creditedCustomers now order cs =
     (let (customer, s3) = getOrCreateCustomer now (customerUsername order)
                             \<lparr>products = [], orders = [], customers = cs, bales = []\<rparr>
      in customers (updateCustomer
            (customer\<lparr>orderCount := orderCount customer + quantity order,
                      totalSpent := totalSpent customer + totalPrice order\<rparr>) s3))"

section \<open>Live selling view: cart, discount and checkout\<close>

text \<open>
  The component \<open>LiveSell\<close> keeps its state in React hooks; an event handler reads the
  state of the last render and the store, and writes both.  A handler is modelled as a
  function from the component state and the store to the new pair.  The values a
  handler takes from its environment are parameters: the clock (\<open>Date.now()\<close>), the
  identifier of a new cart line (built from the clock and \<open>Math.random()\<close>), the
  answer to a \<open>confirm\<close> dialog, and \<open>showNum\<close>, the conversion of a number to its
  text that a template literal applies.  The bales the component read at its last
  render are those of the store the handler is given: nothing between a render and a
  handler changes a bale's id, name or item count.  The texts of \<open>alert\<close> dialogs are
  collected in the field \<open>alerts\<close>.  Timers that clear the feedback banner later are
  left out.
\<close>

record CartItem =
  ci_id :: string
  price :: number
  ci_quantity :: number
  ci_isFreebie :: bool
  baleId :: string

datatype DiscountType = NONE | FIXED | PERCENTAGE

record OosModalData =
  oos_name :: string
  oos_total :: number
  oos_sold :: number

record BaleStats =
  remaining :: number
  st_total :: number
  sold :: number
  revenue :: number
  targetPrice :: number

record LiveSell =
  session :: "LiveSession option"
  username :: string
  transactionNo :: string
  selectedBaleId :: string
  cart :: "CartItem list"
  useVipTicket :: bool
  vipDiscount :: number
  vipDiscountType :: DiscountType
  txPaymentMethod :: "PaymentMethod option"
  txAmountPaid :: "number option"
  customPrice :: string
  feedback :: "string option"
  oosModalData :: "OosModalData option"
  allCustomers :: "Customer list"
  dataTick :: number
  showSessionOrders :: bool
  alerts :: "string list"

text \<open>The bytes of the signs the source writes in its messages and product names.\<close>

definition noEntrySign :: string where
  "noEntrySign = [CHR 0xF0, CHR 0x9F, CHR 0x9A, CHR 0xAB]"

definition pesoSign :: string where
  "pesoSign = [CHR 0xE2, CHR 0x82, CHR 0xB1]"

definition currentCustomer :: "LiveSell \<Rightarrow> Customer option" where
  "currentCustomer ls = find (\<lambda>c. c_username c = username ls) (allCustomers ls)"

definition isRestricted :: "LiveSell \<Rightarrow> bool" where
  "isRestricted ls = (case currentCustomer ls of Some c \<Rightarrow> isBlacklisted c | None \<Rightarrow> False)"

definition cartTotal :: "CartItem list \<Rightarrow> number" where
  "cartTotal crt = foldl (\<lambda>sum item. sum + price item * ci_quantity item) 0 crt"

definition totalItemsInCart :: "CartItem list \<Rightarrow> number" where
  "totalItemsInCart crt = foldl (\<lambda>sum item. sum + ci_quantity item) 0 crt"

text \<open>\<open>calculatedDiscount\<close> and \<open>finalTotal\<close>, as functions of the values the memo
  depends on: the ticket switch, the discount type, the discount and the cart total.\<close>

definition calculatedDiscount :: "bool \<Rightarrow> DiscountType \<Rightarrow> number \<Rightarrow> number \<Rightarrow> number" where
  "calculatedDiscount useTicket dtype discount ctotal =
     (if \<not> useTicket then 0
      else if dtype = NONE then 0
      else if dtype = FIXED then min discount ctotal
      else if dtype = PERCENTAGE then ctotal * (min discount 100 / 100)
      else 0)"

definition finalTotal :: "number \<Rightarrow> number \<Rightarrow> number" where
  "finalTotal ctotal discount = max 0 (ctotal - discount)"

definition discountOf :: "LiveSell \<Rightarrow> number" where
  "discountOf ls =
     calculatedDiscount (useVipTicket ls) (vipDiscountType ls) (vipDiscount ls) (cartTotal (cart ls))"

definition finalTotalOf :: "LiveSell \<Rightarrow> number" where
  "finalTotalOf ls = finalTotal (cartTotal (cart ls)) (discountOf ls)"

definition getBaleStats :: "string \<Rightarrow> CartItem list \<Rightarrow> DB \<Rightarrow> BaleStats" where
  "getBaleStats bid crt db =
     (case find (\<lambda>b. b_id b = bid) (bales db) of
        None \<Rightarrow> \<lparr>remaining = 0, st_total = 0, sold = 0, revenue = 0, targetPrice = 0\<rparr>
      | Some bale \<Rightarrow>
          (let baleProductIds = map p_id (filter (\<lambda>p. baleBatch p = bid) (products db));
               baleOrders = filter (\<lambda>ord. productId ord \<in> set baleProductIds \<and>
                                           shippingStatus ord \<noteq> CANCELLED) (orders db);
               soldInDb = foldl (\<lambda>sum ord. sum + quantity ord) 0 baleOrders;
               revenueInDb = foldl (\<lambda>sum ord. sum + totalPrice ord) 0 baleOrders;
               inCartCount = foldl (\<lambda>sum item. sum + ci_quantity item) 0
                               (filter (\<lambda>item. baleId item = bid) crt);
               inCartRevenue = foldl (\<lambda>sum item. sum + price item * ci_quantity item) 0
                                 (filter (\<lambda>item. baleId item = bid) crt);
               totalSoldActual = soldInDb + inCartCount;
               totalRevenueActual = revenueInDb + inCartRevenue;
               remainingItems = max 0 (itemCount bale - totalSoldActual);
               remainingToRecover = max 0 (cost bale - totalRevenueActual);
               target = (if remainingItems > 0 then remainingToRecover / remainingItems else 0)
           in \<lparr>remaining = remainingItems, st_total = itemCount bale, sold = totalSoldActual,
               revenue = totalRevenueActual, targetPrice = target\<rparr>))"

text \<open>The updater \<open>addToCart\<close> passes to \<open>setCart\<close>: a line with the same price,
  freebie flag and bale is taken out, its quantity raised by one, and put in front; with
  no such line a new line of quantity one is put in front.\<close>

definition cartAdd :: "string \<Rightarrow> number \<Rightarrow> bool \<Rightarrow> string \<Rightarrow> CartItem list \<Rightarrow> CartItem list" where
  "cartAdd lineId linePrice freebie bid prev =
     (case findIndex (\<lambda>i. price i = linePrice \<and> ci_isFreebie i = freebie \<and> baleId i = bid) prev of
        Some idx \<Rightarrow>
          (let existingItem = prev ! idx;
               others = take idx prev @ drop (Suc idx) prev
           in existingItem\<lparr>ci_quantity := ci_quantity existingItem + 1\<rparr> # others)
      | None \<Rightarrow>
          \<lparr>ci_id = lineId, price = linePrice, ci_quantity = 1, ci_isFreebie = freebie,
           baleId = bid\<rparr> # prev)"

definition addToCart :: "string \<Rightarrow> number \<Rightarrow> bool \<Rightarrow> LiveSell \<Rightarrow> DB \<Rightarrow> LiveSell" where
  "addToCart lineId inputPrice freebie ls db =
     (if isRestricted ls then ls\<lparr>feedback := Some (noEntrySign @ '' Action Blocked'')\<rparr>
      else if selectedBaleId ls = [] then ls\<lparr>feedback := Some ''Select Batch First''\<rparr>
      else
        (let stats = getBaleStats (selectedBaleId ls) (cart ls) db
         in if remaining stats \<le> 0
            then ls\<lparr>oosModalData := Some
                   \<lparr>oos_name = (case find (\<lambda>b. b_id b = selectedBaleId ls) (bales db) of
                                  Some b \<Rightarrow> b_name b | None \<Rightarrow> []),
                    oos_total = st_total stats, oos_sold = sold stats\<rparr>\<rparr>
            else
              (let linePrice = (if freebie then 0 else inputPrice)
               in ls\<lparr>cart := cartAdd lineId linePrice freebie (selectedBaleId ls) (cart ls),
                     customPrice := []\<rparr>)))"

text \<open>The body of the loop of \<open>handleCheckout\<close> for one cart line and its index.\<close>

definition checkoutOrder ::
  "(number \<Rightarrow> string) \<Rightarrow> number \<Rightarrow> LiveSell \<Rightarrow> LiveSession \<Rightarrow> Customer \<Rightarrow> CartItem \<Rightarrow> nat \<Rightarrow> Product \<times> Order" where
  "checkoutOrder showNum timestamp ls sess customer item idx =
     (let totalDiscountAmount = discountOf ls;
          discountRatio = (if useVipTicket ls \<and> cartTotal (cart ls) > 0
                           then totalDiscountAmount / cartTotal (cart ls) else 0);
          globalPaidInput = (case txAmountPaid ls of None \<Rightarrow> 0 | Some v \<Rightarrow> v);
          isGlobalPaid = (txPaymentMethod ls \<noteq> None);
          discounted = (useVipTicket ls \<and> totalDiscountAmount > 0 \<and> \<not> ci_isFreebie item);
          finalItemPrice = (if discounted then price item * (1 - discountRatio) else price item);
          finalItemTotal = (if discounted then finalItemPrice * ci_quantity item
                            else price item * ci_quantity item);
          itemAmountPaid =
            (if ci_isFreebie item then 0
             else if isGlobalPaid then
               (if finalTotalOf ls > 0 then (finalItemTotal / finalTotalOf ls) * globalPaidInput
                else 0)
             else 0);
          itemPaymentStatus =
            (if ci_isFreebie item then PAID
             else if isGlobalPaid then
               (if itemAmountPaid \<ge> finalItemTotal - 1 / 100 then PAID
                else if itemAmountPaid > 0 then PARTIAL
                else UNPAID)
             else UNPAID);
          deterministicProdId = ''live_'' @ baleId item @ ''_'' @ showNum (price item) @
                                (if ci_isFreebie item then ''_f'' else []);
          prod = \<lparr>p_id = deterministicProdId,
                  p_name = (if ci_isFreebie item then ''Gift''
                            else ''Live Item '' @ pesoSign @ showNum (price item)),
                  brand = ''Live'', baleBatch = baleId item, costPrice = 0,
                  sellingPrice = finalItemPrice, stock = 0\<rparr>
      in (prod,
          \<lparr>o_id = ''o_'' @ showNum timestamp @ ''_'' @ showNum (of_nat idx),
           sessionId = s_id sess, customerId = c_id customer, customerUsername = username ls,
           productId = deterministicProdId, productName = p_name prod,
           quantity = ci_quantity item, totalPrice = finalItemTotal,
           isFreebie = ci_isFreebie item, paymentStatus = itemPaymentStatus,
           shippingStatus = PENDING, paymentMethod = txPaymentMethod ls,
           referenceNumber = (if transactionNo ls = [] then None else Some (transactionNo ls)),
           amountPaid = itemAmountPaid, createdAt = timestamp,
           usedVipTicket = Some (useVipTicket ls), logs = None\<rparr>))"

definition checkoutItem ::
  "(number \<Rightarrow> string) \<Rightarrow> number \<Rightarrow> LiveSell \<Rightarrow> LiveSession \<Rightarrow> Customer \<Rightarrow> nat \<times> CartItem \<Rightarrow> DB \<Rightarrow> DB" where
  "checkoutItem showNum timestamp ls sess customer entry db =
     (let (prod, order) = checkoutOrder showNum timestamp ls sess customer (snd entry) (fst entry)
      in addOrder (showNum timestamp) order (updateProduct prod db))"

definition handleCheckout :: "(number \<Rightarrow> string) \<Rightarrow> number \<Rightarrow> LiveSell \<Rightarrow> DB \<Rightarrow> LiveSell \<times> DB" where
  "handleCheckout showNum timestamp ls db =
     (case session ls of
        None \<Rightarrow> (ls\<lparr>alerts := alerts ls @ [''Username required!'']\<rparr>, db)
      | Some sess \<Rightarrow>
          if username ls = [] then (ls\<lparr>alerts := alerts ls @ [''Username required!'']\<rparr>, db)
          else
            (let (customer, db1) = getOrCreateCustomer (showNum timestamp) (username ls) db
             in if isBlacklisted customer
                then (ls\<lparr>feedback := Some (noEntrySign @ '' Customer Blacklisted'')\<rparr>, db1)
                else if useVipTicket ls \<and> vipDiscountType ls = FIXED \<and>
                        vipDiscount ls > cartTotal (cart ls)
                then (ls\<lparr>alerts := alerts ls @
                           [''Discount cannot be larger than the total amount.'']\<rparr>, db1)
                else if useVipTicket ls \<and> \<not> vipTickets customer > 0
                then (ls\<lparr>alerts := alerts ls @ [''Error: Customer has no VIP tickets left!''],
                         useVipTicket := False\<rparr>, db1)
                else
                  (let customer' = (if useVipTicket ls
                                    then customer\<lparr>vipTickets := vipTickets customer - 1\<rparr>
                                    else customer);
                       db2 = (if useVipTicket ls then updateCustomer customer' db1 else db1);
                       shown = (if useVipTicket ls then customers db2 else allCustomers ls);
                       db3 = fold (checkoutItem showNum timestamp ls sess customer')
                               (enumerate 0 (cart ls)) db2
                   in (ls\<lparr>allCustomers := shown, cart := [], username := [],
                          transactionNo := [], useVipTicket := False, vipDiscount := 0,
                          vipDiscountType := NONE, txPaymentMethod := None,
                          txAmountPaid := None, dataTick := dataTick ls + 1,
                          feedback := Some (''Recorded for @'' @ username ls @ ''!'')\<rparr>, db3))))"

text \<open>The conditions under which \<open>handleCheckout\<close> passes its guards and reaches the
  loop over the cart.\<close>

definition checkoutAccepted :: "(number \<Rightarrow> string) \<Rightarrow> number \<Rightarrow> LiveSell \<Rightarrow> DB \<Rightarrow> bool" where
  "checkoutAccepted showNum timestamp ls db =
     (session ls \<noteq> None \<and> username ls \<noteq> [] \<and>
      \<not> isBlacklisted (fst (getOrCreateCustomer (showNum timestamp) (username ls) db)) \<and>
      \<not> (useVipTicket ls \<and> vipDiscountType ls = FIXED \<and> vipDiscount ls > cartTotal (cart ls)) \<and>
      \<not> (useVipTicket ls \<and>
         \<not> vipTickets (fst (getOrCreateCustomer (showNum timestamp) (username ls) db)) > 0))"

definition restoredItem :: "Product list \<Rightarrow> Order \<Rightarrow> CartItem" where
  "restoredItem ps order =
     \<lparr>ci_id = ''c_restored_'' @ o_id order,
      price = (if quantity order > 0 then totalPrice order / quantity order else 0),
      ci_quantity = quantity order,
      ci_isFreebie = isFreebie order,
      baleId = (case find (\<lambda>p. p_id p = productId order) ps of
                  Some product \<Rightarrow> baleBatch product | None \<Rightarrow> [])\<rparr>"

text \<open>A ticket flag of an order used as a condition: a missing flag is falsy.\<close>

definition ticketFlag :: "Order \<Rightarrow> bool" where
  "ticketFlag order = (usedVipTicket order = Some True)"

definition returnTicket :: "string \<Rightarrow> string \<Rightarrow> DB \<Rightarrow> DB" where
  "returnTicket now targetUsername db =
     (let (cust, db1) = getOrCreateCustomer now targetUsername db
      in updateCustomer (cust\<lparr>vipTickets := vipTickets cust + 1\<rparr>) db1)"

definition handleEditCustomer ::
  "string \<Rightarrow> bool \<Rightarrow> string \<Rightarrow> LiveSell \<Rightarrow> DB \<Rightarrow> LiveSell \<times> DB" where
  "handleEditCustomer now confirmAnswer targetUsername ls db =
     (case session ls of
        None \<Rightarrow> (ls, db)
      | Some sess \<Rightarrow>
          (case filter (\<lambda>ord. sessionId ord = s_id sess \<and> customerUsername ord = targetUsername)
                  (orders db) of
             [] \<Rightarrow> (ls, db)
           | first # others \<Rightarrow>
               if cart ls \<noteq> [] \<and> username ls \<noteq> targetUsername \<and> \<not> confirmAnswer then (ls, db)
               else
                 (let sessionOrders = first # others;
                      ticketUsed = list_ex ticketFlag sessionOrders;
                      newCartItems = map (restoredItem (products db)) sessionOrders;
                      db1 = fold (\<lambda>ord. deleteOrder (o_id ord)) sessionOrders db;
                      db2 = (if ticketUsed then returnTicket now targetUsername db1 else db1);
                      shown = (if ticketUsed then customers db2 else allCustomers ls)
                  in (ls\<lparr>allCustomers := shown, cart := newCartItems,
                         username := targetUsername,
                         transactionNo := (case referenceNumber first of
                                             Some r \<Rightarrow> r | None \<Rightarrow> []),
                         useVipTicket := ticketUsed, vipDiscount := 0,
                         vipDiscountType := NONE, txPaymentMethod := None,
                         txAmountPaid := None, dataTick := dataTick ls + 1,
                         showSessionOrders := False,
                         feedback := Some (''Editing @'' @ targetUsername)\<rparr>, db2))))"

text \<open>The modal \<open>SessionOrdersModal\<close> with its own state and \<open>handleManualDelete\<close>.\<close>

record SessionOrdersModal =
  m_sessionId :: string
  editingUser :: "string option"
  deleteTargetUser :: "string option"
  tick :: number

definition handleManualDelete :: "string \<Rightarrow> SessionOrdersModal \<Rightarrow> DB \<Rightarrow> SessionOrdersModal \<times> DB" where
  "handleManualDelete now m db =
     (if \<not> truthy (deleteTargetUser m) then (m, db)
      else
        (let target = the (deleteTargetUser m);
             userOrders = filter (\<lambda>ord. sessionId ord = m_sessionId m \<and>
                                         customerUsername ord = target) (orders db);
             db1 = fold (\<lambda>ord. deleteOrder (o_id ord)) userOrders db;
             db2 = (if list_ex ticketFlag userOrders then returnTicket now target db1 else db1)
         in (m\<lparr>tick := tick m + 1, deleteTargetUser := None\<rparr>, db2)))"

text \<open>The tickets the store holds for a username (none for an unknown customer), and
  the orders of a customer in a session: the group both handlers filter out.\<close>

definition ticketsOf :: "string \<Rightarrow> DB \<Rightarrow> number" where
  "ticketsOf u db =
     (case find (\<lambda>c. c_username c = u) (customers db) of Some c \<Rightarrow> vipTickets c | None \<Rightarrow> 0)"

definition groupOf :: "string \<Rightarrow> string \<Rightarrow> DB \<Rightarrow> Order list" where
  "groupOf sid u db = filter (\<lambda>ord. sessionId ord = sid \<and> customerUsername ord = u) (orders db)"

section \<open>Orders view: group edit and audit log (views/Orders.tsx)\<close>

text \<open>
  A \<open>GroupedOrder\<close> is the aggregate of the orders of one customer in a session: an
  order record with the summed quantity, total price and amount paid, the identifiers
  and the rows of its constituents.
\<close>

record GroupedOrder = Order +
  ids :: "string list"
  items :: "Order list"
  isCustomerVIP :: "bool option"




subsection \<open>Writing an audit-log line (\<open>StatusModal.handleSaveClick\<close>)\<close>





subsection \<open>Reading an audit-log line (\<open>LogItem\<close>, \<open>ChangeRow\<close>)\<close>



text \<open>The split of \<open>LogItem\<close> by the regular expression
  \<open>/, (?=(?:Status|Paid|Shipping|Ref):)/\<close>: a comma and a space are a separator where
  one of the four field names and a colon follow; the look-ahead is not consumed.\<close>

definition changeKeys :: "string list" where
  "changeKeys = [''Status'', ''Paid'', ''Shipping'', ''Ref'']"

definition atChangeSep :: "string \<Rightarrow> bool" where
  "atChangeSep s = (prefix '', '' s \<and> list_ex (\<lambda>k. prefix (k @ '':'') (drop 2 s)) changeKeys)"

fun splitChanges :: "string \<Rightarrow> string list" where
  "splitChanges [] = [[]]"
| "splitChanges (c # cs) =
     (if atChangeSep (c # cs) then [] # splitChanges (tl cs)
      else (case splitChanges cs of x # xs \<Rightarrow> (c # x) # xs | [] \<Rightarrow> [[c]]))"













section \<open>Example stores\<close>

text \<open>Concrete values on which the theorems below are instantiated.\<close>

definition ex_bale :: "BaleStatus \<Rightarrow> number \<Rightarrow> Bale" where
  "ex_bale st n = \<lparr>b_id = ''B1'', b_name = ''Bale one'', b_status = st, cost = 1000, itemCount = n\<rparr>"

definition ex_product :: Product where
  "ex_product = \<lparr>p_id = ''live_B1_100'', p_name = ''Live Item 100'', brand = ''Live'',
     baleBatch = ''B1'', costPrice = 0, sellingPrice = 100, stock = 0\<rparr>"

definition ex_order :: "string \<Rightarrow> number \<Rightarrow> ShippingStatus \<Rightarrow> Order" where
  "ex_order ident q ship = \<lparr>o_id = ident, sessionId = ''s1'', customerId = ''c1'',
     customerUsername = ''ana'', productId = ''live_B1_100'', productName = ''Live Item 100'',
     quantity = q, totalPrice = 100 * q, isFreebie = False, paymentStatus = UNPAID,
     shippingStatus = ship, paymentMethod = None, referenceNumber = None, amountPaid = 0,
     createdAt = 1, usedVipTicket = Some False, logs = None\<rparr>"

definition ex_customer :: Customer where
  "ex_customer = \<lparr>c_id = ''c1'', c_username = ''ana'', isVIP = True, vipTickets = 2,
     isBlacklisted = False, totalSpent = 500, orderCount = 5\<rparr>"

definition ex_store :: "BaleStatus \<Rightarrow> number \<Rightarrow> Order list \<Rightarrow> DB" where
  "ex_store st n os = \<lparr>products = [ex_product], orders = os, customers = [ex_customer],
     bales = [ex_bale st n]\<rparr>"

text \<open>A component state of the live selling view, a cart line, and a rendering of the
  numbers that occur in the examples.\<close>

definition ex_session :: LiveSession where
  "ex_session = \<lparr>s_id = ''s1'', s_name = ''Live'', s_date = ''11/2/2026'', totalSales = 0,
     totalOrders = 0, isOpen = True\<rparr>"

definition ex_blocked :: Customer where
  "ex_blocked = \<lparr>c_id = ''c3'', c_username = ''joy'', isVIP = False, vipTickets = 0,
     isBlacklisted = True, totalSpent = 0, orderCount = 0\<rparr>"

definition ex_live :: "string \<Rightarrow> CartItem list \<Rightarrow> LiveSell" where
  "ex_live u crt = \<lparr>session = Some ex_session, username = u, transactionNo = [],
     selectedBaleId = ''B1'', cart = crt, useVipTicket = False, vipDiscount = 0,
     vipDiscountType = NONE, txPaymentMethod = None, txAmountPaid = None, customPrice = [],
     feedback = None, oosModalData = None, allCustomers = [ex_customer, ex_blocked],
     dataTick = 0, showSessionOrders = False, alerts = []\<rparr>"

definition ex_line :: "number \<Rightarrow> CartItem" where
  "ex_line q = \<lparr>ci_id = ''l1'', price = 100, ci_quantity = q, ci_isFreebie = False,
     baleId = ''B1''\<rparr>"

definition ex_showNum :: "number \<Rightarrow> string" where
  "ex_showNum q = (if q = 0 then ''0'' else if q = 1 then ''1'' else if q = 5 then ''5''
                   else if q = 6 then ''6'' else if q = 100 then ''100''
                   else if q = 500 then ''500'' else ''1700000000000'')"



definition ex_ticket_live :: LiveSell where
  "ex_ticket_live = (ex_live ''ana'' [ex_line 1])\<lparr>useVipTicket := True\<rparr>"

definition ex_modal :: SessionOrdersModal where
  "ex_modal = \<lparr>m_sessionId = ''s1'', editingUser = None, deleteTargetUser = Some ''ana'', tick = 0\<rparr>"

definition ex_flagged_store :: DB where
  "ex_flagged_store = ex_store OnSale 10 [(ex_order ''o1'' 1 PENDING)\<lparr>usedVipTicket := Some True\<rparr>]"


section \<open>Facts about the store\<close>

lemma findIndex_Some:
  "findIndex P xs = Some i \<Longrightarrow> i < length xs \<and> P (xs ! i) \<and> (\<forall>j<i. \<not> P (xs ! j))"
proof (induction xs arbitrary: i)
  case Nil
  then show ?case by simp
next
  case (Cons x xs)
  show ?case
  proof (cases "P x")
    case True
    with Cons.prems show ?thesis by simp
  next
    case False
    with Cons.prems obtain k where k: "findIndex P xs = Some k" "i = Suc k"
      by auto
    from Cons.IH [OF k(1)] False k(2) show ?thesis
      by (auto simp: nth_Cons split: nat.splits)
  qed
qed

lemma findIndex_None: "findIndex P xs = None \<longleftrightarrow> (\<forall>x\<in>set xs. \<not> P x)"
  by (induction xs) auto

lemma find_findIndex: "find P xs = map_option (\<lambda>i. xs ! i) (findIndex P xs)"
  by (induction xs) (auto simp: option.map_comp comp_def)

lemma refreshBaleStatus_frame:
  "products (refreshBaleStatus bid s) = products s \<and>
   orders (refreshBaleStatus bid s) = orders s \<and>
   customers (refreshBaleStatus bid s) = customers s \<and>
   length (bales (refreshBaleStatus bid s)) = length (bales s)"
  by (simp add: refreshBaleStatus_def Let_def split: option.splits)

lemma refreshBaleStatus_bales:
  assumes "findIndex (\<lambda>b. b_id b = bid) (bales s) = Some i"
  shows "bales (refreshBaleStatus bid s) =
         (bales s)[i := (bales s ! i)\<lparr>b_status := newBaleStatus (soldCount bid s) (bales s ! i)\<rparr>]"
proof -
  have "(bales s)[i := (bales s ! i)\<lparr>b_status := b_status (bales s ! i)\<rparr>] = bales s"
    by simp
  with assms show ?thesis
    by (auto simp: refreshBaleStatus_def Let_def)
qed

lemma refreshBaleStatus_other:
  assumes "findIndex (\<lambda>b. b_id b = bid) (bales s) \<noteq> Some j"
  shows "bales (refreshBaleStatus bid s) ! j = bales s ! j"
proof (cases "findIndex (\<lambda>b. b_id b = bid) (bales s)")
  case None
  then show ?thesis by (simp add: refreshBaleStatus_def)
next
  case (Some i)
  with assms have "i \<noteq> j" by simp
  then show ?thesis by (simp add: refreshBaleStatus_bales [OF Some])
qed


lemma updateOrder_products:
  assumes "findIndex (\<lambda>ord. o_id ord = o_id order) (orders s) = Some i"
  shows "products (updateOrder order s) =
     (if returnsStock order (orders s ! i)
      then stockAdjusted (productId order) (quantity order) (products s) else products s)"
  using assms
  by (auto simp: updateOrder_def Let_def refreshBaleStatus_frame stockAdjusted_def
           split: option.splits prod.splits)


lemma updateOrder_absent:
  "findIndex (\<lambda>ord. o_id ord = o_id order) (orders s) = None \<Longrightarrow> updateOrder order s = s"
  by (simp add: updateOrder_def)

lemma deleteOrder_frame:
  "products (deleteOrder ident s) = products s \<and>
   customers (deleteOrder ident s) = customers s \<and>
   orders (deleteOrder ident s) = filter (\<lambda>ord. o_id ord \<noteq> ident) (orders s)"
  by (simp add: deleteOrder_def Let_def refreshBaleStatus_frame)

lemma deleteOrder_recompute:
  assumes "find (\<lambda>ord. o_id ord = ident) (orders s) = Some ord"
      and "find (\<lambda>p. p_id p = productId ord) (products s) = Some p"
      and "baleBatch p \<noteq> []"
  shows "deleteOrder ident s =
         refreshBaleStatus (baleBatch p) (s\<lparr>orders := filter (\<lambda>ord. o_id ord \<noteq> ident) (orders s)\<rparr>)"
  using assms by (simp add: deleteOrder_def truthy_def)

lemma addOrder_orders: "orders (addOrder now order s) = orders s @ [order]"
  by (simp add: addOrder_def Let_def refreshBaleStatus_frame updateCustomer_def
        getOrCreateCustomer_def split: option.splits prod.splits)

lemma addOrder_products:
  "products (addOrder now order s) =
     (if isFreebie order then products s
      else stockAdjusted (productId order) (- quantity order) (products s))"
  by (simp add: addOrder_def Let_def refreshBaleStatus_frame updateCustomer_def
        getOrCreateCustomer_def stockAdjusted_def split: option.splits prod.splits)

lemma addOrder_customers:
  "customers (addOrder now order s) = creditedCustomers now order (customers s)"
  by (simp add: addOrder_def Let_def refreshBaleStatus_frame updateCustomer_def
        getOrCreateCustomer_def creditedCustomers_def split: option.splits prod.splits)


lemma findIndex_distinct:
  "distinct (map f xs) \<Longrightarrow> k < length xs \<Longrightarrow> findIndex (\<lambda>x. f x = f (xs ! k)) xs = Some k"
proof (induction xs arbitrary: k)
  case Nil
  then show ?case by simp
next
  case (Cons x xs)
  show ?case
  proof (cases k)
    case 0
    then show ?thesis by simp
  next
    case (Suc m)
    with Cons.prems have m: "m < length xs" and d: "distinct (map f xs)"
      and nx: "f x \<notin> f ` set xs" by auto
    from m have "f (xs ! m) \<in> f ` set xs" by simp
    with nx have "f x \<noteq> f (xs ! m)" by metis
    with Cons.IH [OF d m] Suc show ?thesis by simp
  qed
qed

lemma findIndex_append_fresh:
  "\<forall>x\<in>set xs. \<not> P x \<Longrightarrow> P y \<Longrightarrow> findIndex P (xs @ [y]) = Some (length xs)"
  by (induction xs) auto

lemma creditedCustomers_known:
  assumes ids: "distinct (map c_id cs)"
      and k: "findIndex (\<lambda>c. c_username c = customerUsername order) cs = Some k"
  shows "creditedCustomers now order cs =
         cs[k := (cs ! k)\<lparr>orderCount := orderCount (cs ! k) + quantity order,
                          totalSpent := totalSpent (cs ! k) + totalPrice order\<rparr>]"
proof -
  from findIndex_Some [OF k] have lt: "k < length cs" by simp
  have f: "find (\<lambda>c. c_username c = customerUsername order) cs = Some (cs ! k)"
    by (simp add: find_findIndex k)
  have "findIndex (\<lambda>c. c_id c = c_id (cs ! k)) cs = Some k"
    by (rule findIndex_distinct [OF ids lt])
  then show ?thesis
    by (simp add: creditedCustomers_def getOrCreateCustomer_def f updateCustomer_def)
qed

lemma creditedCustomers_new:
  assumes fresh: "''c_'' @ now \<notin> c_id ` set cs"
      and k: "findIndex (\<lambda>c. c_username c = customerUsername order) cs = None"
  shows "creditedCustomers now order cs =
         cs @ [\<lparr>c_id = ''c_'' @ now, c_username = customerUsername order, isVIP = False,
                vipTickets = 0, isBlacklisted = False, totalSpent = totalPrice order,
                orderCount = quantity order\<rparr>]"
proof -
  have f: "find (\<lambda>c. c_username c = customerUsername order) cs = None"
    by (simp add: find_findIndex k)
  let ?new = "\<lparr>c_id = ''c_'' @ now, c_username = customerUsername order, isVIP = False,
                vipTickets = 0, isBlacklisted = False, totalSpent = 0, orderCount = 0\<rparr>"
  from fresh have "\<forall>x\<in>set cs. \<not> c_id x = ''c_'' @ now" by (metis image_eqI)
  then have "findIndex (\<lambda>c. c_id c = ''c_'' @ now) (cs @ [?new]) = Some (length cs)"
    by (rule findIndex_append_fresh) simp
  then show ?thesis
    by (simp add: creditedCustomers_def getOrCreateCustomer_def f updateCustomer_def Let_def)
qed

section \<open>Claims about the entity store\<close>

lemmas ex_defs = ex_bale_def ex_product_def ex_order_def ex_customer_def ex_store_def

lemma addOrder_recompute:
  "addOrder now order s =
     (let mid = s\<lparr>orders := orders s @ [order],
                   products := (if isFreebie order then products s
                                else stockAdjusted (productId order) (- quantity order) (products s)),
                   customers := creditedCustomers now order (customers s)\<rparr>
      in case find (\<lambda>p. p_id p = productId order) (products s) of
           Some p \<Rightarrow> if baleBatch p = [] then mid else refreshBaleStatus (baleBatch p) mid
         | None \<Rightarrow> mid)"
  by (simp add: addOrder_def Let_def updateCustomer_def truthy_def find_findIndex
        getOrCreateCustomer_def stockAdjusted_def creditedCustomers_def
        split: option.splits prod.splits)

lemma addOrder_other_bales:
  assumes "\<forall>p. find (\<lambda>p. p_id p = productId order) (products s) = Some p \<longrightarrow>
             findIndex (\<lambda>b. b_id b = baleBatch p) (bales s) \<noteq> Some j"
  shows "bales (addOrder now order s) ! j = bales s ! j"
proof (cases "find (\<lambda>p. p_id p = productId order) (products s)")
  case None
  then show ?thesis by (simp add: addOrder_recompute Let_def)
next
  case (Some p)
  with assms have "findIndex (\<lambda>b. b_id b = baleBatch p) (bales s) \<noteq> Some j" by simp
  then show ?thesis
    by (simp add: addOrder_recompute Let_def Some refreshBaleStatus_other)
qed

text \<open>
  Claim C1 (amended).  \<open>refreshBaleStatus\<close> on a bale with a positive item count
  changes nothing but that bale's status.  The status is set to Sold Out whenever the
  sold count (the sum of the quantities of the non-cancelled orders on the bale's
  products) reaches the item count, and a bale that was not Sold Out becomes Sold Out
  only then.  The status is demoted to On Sale when the sold count is positive and under
  the item count and the status was Ordered, Arrived or Sold Out.  An Ordered or Arrived
  bale with no sale left keeps its status: the demotion needs a sold count above zero.  A
  bale that is On Sale and under its item count stays On Sale, and the recompute never
  sets Ordered or Arrived.
\<close>

theorem refreshBaleStatus_policy:
  assumes idx: "findIndex (\<lambda>b. b_id b = bid) (bales s) = Some i"
      and pos: "itemCount (bales s ! i) > 0"
  shows "products (refreshBaleStatus bid s) = products s \<and>
         orders (refreshBaleStatus bid s) = orders s \<and>
         customers (refreshBaleStatus bid s) = customers s \<and>
         bales (refreshBaleStatus bid s) =
           (bales s)[i := (bales s ! i)\<lparr>b_status := b_status (bales (refreshBaleStatus bid s) ! i)\<rparr>] \<and>
         (soldCount bid s \<ge> itemCount (bales s ! i) \<longrightarrow>
            b_status (bales (refreshBaleStatus bid s) ! i) = SoldOut) \<and>
         (b_status (bales (refreshBaleStatus bid s) ! i) = SoldOut \<and>
          b_status (bales s ! i) \<noteq> SoldOut \<longrightarrow>
            soldCount bid s \<ge> itemCount (bales s ! i)) \<and>
         (0 < soldCount bid s \<and> soldCount bid s < itemCount (bales s ! i) \<and>
          b_status (bales s ! i) \<in> {Ordered, Arrived, SoldOut} \<longrightarrow>
            b_status (bales (refreshBaleStatus bid s) ! i) = OnSale) \<and>
         (soldCount bid s \<le> 0 \<and> b_status (bales s ! i) \<in> {Ordered, Arrived} \<longrightarrow>
            b_status (bales (refreshBaleStatus bid s) ! i) = b_status (bales s ! i)) \<and>
         (soldCount bid s < itemCount (bales s ! i) \<and> b_status (bales s ! i) = OnSale \<longrightarrow>
            b_status (bales (refreshBaleStatus bid s) ! i) = OnSale) \<and>
         (b_status (bales (refreshBaleStatus bid s) ! i) \<in> {Ordered, Arrived} \<longrightarrow>
            b_status (bales (refreshBaleStatus bid s) ! i) = b_status (bales s ! i))"
proof -
  from findIndex_Some [OF idx] have lt: "i < length (bales s)" by simp
  have st: "b_status (bales (refreshBaleStatus bid s) ! i) =
            newBaleStatus (soldCount bid s) (bales s ! i)"
    using lt by (simp add: refreshBaleStatus_bales [OF idx])
  show ?thesis
    unfolding st using pos lt
    by (auto simp: refreshBaleStatus_frame refreshBaleStatus_bales [OF idx] newBaleStatus_def)
qed

theorem refreshBaleStatus_policy_witness:
  "findIndex (\<lambda>b. b_id b = ''B1'') (bales (ex_store Arrived 3 [ex_order ''o1'' 2 PENDING])) = Some 0 \<and>
   itemCount (bales (ex_store Arrived 3 [ex_order ''o1'' 2 PENDING]) ! 0) > 0 \<and>
   soldCount ''B1'' (ex_store Arrived 3 [ex_order ''o1'' 2 PENDING]) = 2 \<and>
   b_status (bales (refreshBaleStatus ''B1'' (ex_store Arrived 3 [ex_order ''o1'' 2 PENDING])) ! 0) = OnSale"
proof -
  let ?s = "ex_store Arrived 3 [ex_order ''o1'' 2 PENDING]"
  have h1: "findIndex (\<lambda>b. b_id b = ''B1'') (bales ?s) = Some 0"
    by (simp add: ex_defs)
  have h2: "itemCount (bales ?s ! 0) > 0"
    by (simp add: ex_defs)
  have h3: "soldCount ''B1'' ?s = 2"
    by (simp add: ex_defs soldCount_def)
  have h4: "b_status (bales ?s ! 0) = Arrived"
    by (simp add: ex_defs)
  have h5: "itemCount (bales ?s ! 0) = 3"
    by (simp add: ex_defs)
  from refreshBaleStatus_policy [OF h1 h2] h1 h3 h4 h5 show ?thesis
    by simp
qed

text \<open>
  The claim as first stated demands the demotion to On Sale whenever the sold count is
  under the item count.  A bale of five items that a human has set to Arrived has one
  order of one item; the order is cancelled, the sold count drops to 0, and the recompute
  that follows keeps Arrived: the guard \<open>soldCount > 0\<close> of the second branch is not
  met.
\<close>

theorem refreshBaleStatus_demote_counterexample:
  "b_status (bales (ex_store Arrived 5 [ex_order ''o1'' 1 PENDING]) ! 0) = Arrived \<and>
   soldCount ''B1'' (ex_store Arrived 5 [ex_order ''o1'' 1 PENDING]) = 1 \<and>
   itemCount (bales (updateOrder (ex_order ''o1'' 1 CANCELLED)
      (ex_store Arrived 5 [ex_order ''o1'' 1 PENDING])) ! 0) = 5 \<and>
   soldCount ''B1'' (updateOrder (ex_order ''o1'' 1 CANCELLED)
      (ex_store Arrived 5 [ex_order ''o1'' 1 PENDING])) = 0 \<and>
   b_status (bales (updateOrder (ex_order ''o1'' 1 CANCELLED)
      (ex_store Arrived 5 [ex_order ''o1'' 1 PENDING])) ! 0) = Arrived"
  by (simp add: ex_defs updateOrder_def returnsStock_def truthy_def refreshBaleStatus_def
        soldCount_def newBaleStatus_def Let_def)

text \<open>
  Claim C2.  \<open>updateOrder\<close> changes the product list exactly in one case: the order
  is in the store, its new shipping status is Cancelled or RTS and the stored one was
  neither; then the stock of the first product with the order's product id grows by the
  order's quantity, and nothing else changes.  \<open>deleteOrder\<close> never changes the
  product list, and when the deleted order's product is found with a bale id it is the
  bale-status recompute of that bale on the store without the order.
\<close>

theorem order_stock_effects:
  "products (updateOrder order s) =
     (case findIndex (\<lambda>ord. o_id ord = o_id order) (orders s) of
        None \<Rightarrow> products s
      | Some i \<Rightarrow>
          if (shippingStatus order = CANCELLED \<or> shippingStatus order = RTS) \<and>
             shippingStatus (orders s ! i) \<noteq> CANCELLED \<and> shippingStatus (orders s ! i) \<noteq> RTS
          then (case findIndex (\<lambda>p. p_id p = productId order) (products s) of
                  Some j \<Rightarrow> (products s)[j := (products s ! j)
                               \<lparr>stock := stock (products s ! j) + quantity order\<rparr>]
                | None \<Rightarrow> products s)
          else products s) \<and>
   products (deleteOrder ident s) = products s \<and>
   (\<forall>ord p. find (\<lambda>ord. o_id ord = ident) (orders s) = Some ord \<and>
            find (\<lambda>p. p_id p = productId ord) (products s) = Some p \<and>
            baleBatch p \<noteq> [] \<longrightarrow>
      deleteOrder ident s =
        refreshBaleStatus (baleBatch p)
          (s\<lparr>orders := filter (\<lambda>ord. o_id ord \<noteq> ident) (orders s)\<rparr>))"
proof (cases "findIndex (\<lambda>ord. o_id ord = o_id order) (orders s)")
  case None
  then show ?thesis
    using deleteOrder_frame [of ident s] deleteOrder_recompute [of ident s]
    by (simp add: updateOrder_absent)
next
  case (Some i)
  then show ?thesis
    using updateOrder_products [OF Some, unfolded returnsStock_def stockAdjusted_def]
        deleteOrder_frame [of ident s] deleteOrder_recompute [of ident s]
    by (auto split: if_splits)
qed

theorem order_stock_effects_witness:
  "stock (products (ex_store OnSale 3 [ex_order ''o1'' 2 PENDING]) ! 0) = 0 \<and>
   stock (products (updateOrder (ex_order ''o1'' 2 CANCELLED)
            (ex_store OnSale 3 [ex_order ''o1'' 2 PENDING])) ! 0) = 2 \<and>
   products (updateOrder ((ex_order ''o1'' 2 PENDING)\<lparr>paymentStatus := PAID\<rparr>)
      (ex_store OnSale 3 [ex_order ''o1'' 2 PENDING])) =
     products (ex_store OnSale 3 [ex_order ''o1'' 2 PENDING]) \<and>
   products (deleteOrder ''o1'' (ex_store OnSale 3 [ex_order ''o1'' 2 PENDING])) =
     products (ex_store OnSale 3 [ex_order ''o1'' 2 PENDING]) \<and>
   deleteOrder ''o1'' (ex_store OnSale 3 [ex_order ''o1'' 2 PENDING]) =
     refreshBaleStatus ''B1'' (ex_store OnSale 3 [])"
proof -
  let ?s = "ex_store OnSale 3 [ex_order ''o1'' 2 PENDING]"
  have a: "stock (products (updateOrder (ex_order ''o1'' 2 CANCELLED) ?s) ! 0) = 2"
    using order_stock_effects [of "ex_order ''o1'' 2 CANCELLED" ?s "''o1''"]
    by (simp add: ex_defs)
  have b: "products (updateOrder ((ex_order ''o1'' 2 PENDING)\<lparr>paymentStatus := PAID\<rparr>) ?s) =
           products ?s"
    using order_stock_effects [of "(ex_order ''o1'' 2 PENDING)\<lparr>paymentStatus := PAID\<rparr>" ?s "''o1''"]
    by (simp add: ex_defs)
  have f1: "find (\<lambda>ord. o_id ord = ''o1'') (orders ?s) = Some (ex_order ''o1'' 2 PENDING)"
    by (simp add: ex_defs)
  have f2: "find (\<lambda>p. p_id p = productId (ex_order ''o1'' 2 PENDING)) (products ?s) = Some ex_product"
    by (simp add: ex_defs)
  have f3: "baleBatch ex_product \<noteq> []"
    by (simp add: ex_defs)
  have c: "deleteOrder ''o1'' ?s =
           refreshBaleStatus (baleBatch ex_product)
             (?s\<lparr>orders := filter (\<lambda>ord. o_id ord \<noteq> ''o1'') (orders ?s)\<rparr>)"
    using order_stock_effects [of "ex_order ''o1'' 2 CANCELLED" ?s "''o1''"] f1 f2 f3
    by blast
  have d: "?s\<lparr>orders := filter (\<lambda>ord. o_id ord \<noteq> ''o1'') (orders ?s)\<rparr> = ex_store OnSale 3 []"
    by (simp add: ex_defs)
  have e: "baleBatch ex_product = ''B1''"
    by (simp add: ex_defs)
  have g: "products (deleteOrder ''o1'' ?s) = products ?s"
    using order_stock_effects [of "ex_order ''o1'' 2 CANCELLED" ?s "''o1''"] by blast
  have h: "stock (products ?s ! 0) = 0"
    by (simp add: ex_defs)
  from a b c d e g h show ?thesis by simp
qed

text \<open>
  Claim C7.  In a store whose customer ids are distinct (and where the id a new customer
  would get is not taken), \<open>addOrder\<close> appends the order; lowers the stock of the
  first product with the order's product id by the order's quantity unless the order is
  a freebie, every other product being unchanged; adds the order's quantity to the
  \<open>orderCount\<close> and its \<open>totalPrice\<close> to the \<open>totalSpent\<close> of the customer
  with the order's username (created with these totals when absent), every other
  customer being unchanged; and the bales are those of the status recompute for the bale
  of the order's product, run on the updated store: bales at any other index are
  unchanged.
\<close>

theorem addOrder_effects:
  assumes ids: "distinct (map c_id (customers s))"
      and fresh: "''c_'' @ now \<notin> c_id ` set (customers s)"
  shows "orders (addOrder now order s) = orders s @ [order] \<and>
         products (addOrder now order s) =
           (case findIndex (\<lambda>p. p_id p = productId order) (products s) of
              Some j \<Rightarrow>
                if isFreebie order then products s
                else (products s)[j := (products s ! j)
                        \<lparr>stock := stock (products s ! j) - quantity order\<rparr>]
            | None \<Rightarrow> products s) \<and>
         customers (addOrder now order s) =
           (case findIndex (\<lambda>c. c_username c = customerUsername order) (customers s) of
              Some k \<Rightarrow>
                (customers s)[k := (customers s ! k)
                   \<lparr>orderCount := orderCount (customers s ! k) + quantity order,
                    totalSpent := totalSpent (customers s ! k) + totalPrice order\<rparr>]
            | None \<Rightarrow>
                customers s @
                  [\<lparr>c_id = ''c_'' @ now, c_username = customerUsername order, isVIP = False,
                    vipTickets = 0, isBlacklisted = False, totalSpent = totalPrice order,
                    orderCount = quantity order\<rparr>]) \<and>
         bales (addOrder now order s) =
           (case find (\<lambda>p. p_id p = productId order) (products s) of
              Some p \<Rightarrow>
                if baleBatch p = [] then bales s
                else bales (refreshBaleStatus (baleBatch p)
                       (s\<lparr>orders := orders (addOrder now order s),
                          products := products (addOrder now order s),
                          customers := customers (addOrder now order s)\<rparr>))
            | None \<Rightarrow> bales s) \<and>
         (\<forall>j. (\<forall>p. find (\<lambda>p. p_id p = productId order) (products s) = Some p \<longrightarrow>
                    findIndex (\<lambda>b. b_id b = baleBatch p) (bales s) \<noteq> Some j) \<longrightarrow>
              bales (addOrder now order s) ! j = bales s ! j)"
proof -
  have o: "orders (addOrder now order s) = orders s @ [order]"
    by (rule addOrder_orders)
  have p: "products (addOrder now order s) =
           (case findIndex (\<lambda>p. p_id p = productId order) (products s) of
              Some j \<Rightarrow>
                if isFreebie order then products s
                else (products s)[j := (products s ! j)
                        \<lparr>stock := stock (products s ! j) - quantity order\<rparr>]
            | None \<Rightarrow> products s)"
    by (simp add: addOrder_products stockAdjusted_def split: option.splits)
  have c: "customers (addOrder now order s) =
           (case findIndex (\<lambda>c. c_username c = customerUsername order) (customers s) of
              Some k \<Rightarrow>
                (customers s)[k := (customers s ! k)
                   \<lparr>orderCount := orderCount (customers s ! k) + quantity order,
                    totalSpent := totalSpent (customers s ! k) + totalPrice order\<rparr>]
            | None \<Rightarrow>
                customers s @
                  [\<lparr>c_id = ''c_'' @ now, c_username = customerUsername order, isVIP = False,
                    vipTickets = 0, isBlacklisted = False, totalSpent = totalPrice order,
                    orderCount = quantity order\<rparr>])"
    by (simp add: addOrder_customers creditedCustomers_known [OF ids]
          creditedCustomers_new [OF fresh] split: option.splits)
  have r: "bales (addOrder now order s) =
           (case find (\<lambda>p. p_id p = productId order) (products s) of
              Some p \<Rightarrow>
                if baleBatch p = [] then bales s
                else bales (refreshBaleStatus (baleBatch p)
                       (s\<lparr>orders := orders (addOrder now order s),
                          products := products (addOrder now order s),
                          customers := customers (addOrder now order s)\<rparr>))
            | None \<Rightarrow> bales s)"
    unfolding addOrder_orders addOrder_products addOrder_customers
    by (simp add: addOrder_recompute Let_def split: option.splits)
  have b: "\<forall>j. (\<forall>p. find (\<lambda>p. p_id p = productId order) (products s) = Some p \<longrightarrow>
                    findIndex (\<lambda>b. b_id b = baleBatch p) (bales s) \<noteq> Some j) \<longrightarrow>
              bales (addOrder now order s) ! j = bales s ! j"
    using addOrder_other_bales by blast
  from o p c r b show ?thesis by (intro conjI)
qed

theorem addOrder_effects_witness:
  "distinct (map c_id (customers (ex_store OnSale 3 []))) \<and>
   ''c_'' @ ''1700000000000'' \<notin> c_id ` set (customers (ex_store OnSale 3 [])) \<and>
   orders (addOrder ''1700000000000'' (ex_order ''o1'' 3 PENDING) (ex_store OnSale 3 [])) =
     [ex_order ''o1'' 3 PENDING] \<and>
   stock (products (addOrder ''1700000000000'' (ex_order ''o1'' 3 PENDING) (ex_store OnSale 3 [])) ! 0) = -3 \<and>
   orderCount (customers (addOrder ''1700000000000'' (ex_order ''o1'' 3 PENDING) (ex_store OnSale 3 [])) ! 0) = 8 \<and>
   totalSpent (customers (addOrder ''1700000000000'' (ex_order ''o1'' 3 PENDING) (ex_store OnSale 3 [])) ! 0) = 800 \<and>
   b_status (bales (addOrder ''1700000000000'' (ex_order ''o1'' 3 PENDING) (ex_store OnSale 3 [])) ! 0) = SoldOut"
proof -
  let ?s = "ex_store OnSale 3 []"
  let ?o = "ex_order ''o1'' 3 PENDING"
  have h1: "distinct (map c_id (customers ?s))"
    by (simp add: ex_defs)
  have h2: "''c_'' @ ''1700000000000'' \<notin> c_id ` set (customers ?s)"
    by (simp add: ex_defs)
  note t = addOrder_effects [OF h1 h2, of ?o]
  have o: "orders (addOrder ''1700000000000'' ?o ?s) = [?o]"
    using t by (simp add: ex_store_def)
  have p: "products (addOrder ''1700000000000'' ?o ?s) = [ex_product\<lparr>stock := - 3\<rparr>]"
    using t by (simp add: ex_defs)
  have c: "customers (addOrder ''1700000000000'' ?o ?s) =
           [ex_customer\<lparr>orderCount := 8, totalSpent := 800\<rparr>]"
    using t by (simp add: ex_defs)
  have "bales (addOrder ''1700000000000'' ?o ?s) =
        (case find (\<lambda>p. p_id p = productId ?o) (products ?s) of
           Some p \<Rightarrow>
             if baleBatch p = [] then bales ?s
             else bales (refreshBaleStatus (baleBatch p)
                    (?s\<lparr>orders := orders (addOrder ''1700000000000'' ?o ?s),
                        products := products (addOrder ''1700000000000'' ?o ?s),
                        customers := customers (addOrder ''1700000000000'' ?o ?s)\<rparr>))
         | None \<Rightarrow> bales ?s)"
    using t by blast
  then have b: "b_status (bales (addOrder ''1700000000000'' ?o ?s) ! 0) = SoldOut"
    unfolding o p c
    by (simp add: ex_defs refreshBaleStatus_def soldCount_def newBaleStatus_def)
  from h1 h2 o p c b show ?thesis by simp
qed



section \<open>Claims about the cart and the checkout\<close>

lemmas ex_live_defs = ex_session_def ex_blocked_def ex_live_def ex_line_def ex_showNum_def

text \<open>
  Claim C4.  The discount is 0 without a ticket or with type NONE, the smaller of the
  discount and the cart total for FIXED, and the cart total times
  \<open>min(vipDiscount, 100) / 100\<close> for PERCENTAGE; the final total is the cart total less
  the discount, cut off at 0.  A cart total of 1000 gives 800 with PERCENTAGE 20 and 850
  with FIXED 150, and the final total is never negative.
\<close>

theorem vip_discount_totals:
  "calculatedDiscount False dtype d t = 0 \<and>
   calculatedDiscount u NONE d t = 0 \<and>
   calculatedDiscount True FIXED d t = min d t \<and>
   calculatedDiscount True PERCENTAGE d t = t * (min d 100 / 100) \<and>
   finalTotal t (calculatedDiscount u dtype d t) = max 0 (t - calculatedDiscount u dtype d t) \<and>
   finalTotal 1000 (calculatedDiscount True PERCENTAGE 20 1000) = 800 \<and>
   finalTotal 1000 (calculatedDiscount True FIXED 150 1000) = 850 \<and>
   0 \<le> finalTotal t (calculatedDiscount u dtype d t) \<and>
   0 \<le> finalTotalOf ls"
  by (simp add: calculatedDiscount_def finalTotal_def finalTotalOf_def)


lemma addToCart_blocked_cart:
  "isRestricted ls \<or> selectedBaleId ls = [] \<or>
   remaining (getBaleStats (selectedBaleId ls) (cart ls) db) \<le> 0 \<Longrightarrow>
   cart (addToCart lineId inputPrice freebie ls db) = cart ls"
  by (auto simp: addToCart_def Let_def)










lemma updateProduct_frame:
  "orders (updateProduct pr db) = orders db \<and> customers (updateProduct pr db) = customers db \<and>
   bales (updateProduct pr db) = bales db"
  by (simp add: updateProduct_def split: option.splits)

lemma checkoutItem_orders:
  "orders (checkoutItem sn ts ls sess c e db) =
   orders db @ [snd (checkoutOrder sn ts ls sess c (snd e) (fst e))]"
  by (simp add: checkoutItem_def addOrder_orders updateProduct_frame split: prod.splits)

lemma checkout_fold_orders:
  "orders (fold (checkoutItem sn ts ls sess c) xs db) =
   orders db @ map (\<lambda>e. snd (checkoutOrder sn ts ls sess c (snd e) (fst e))) xs"
  by (induction xs arbitrary: db) (simp_all add: checkoutItem_orders)







section \<open>Claims about the propagation of a group edit\<close>










section \<open>Claims about the VIP ticket\<close>

lemma find_first_index:
  "i < length xs \<Longrightarrow> P (xs ! i) \<Longrightarrow> \<forall>j<i. \<not> P (xs ! j) \<Longrightarrow> find P xs = Some (xs ! i)"
  by (auto simp: find_Some_iff)

lemma findIndex_le:
  assumes "findIndex P xs = Some j" "k < length xs" "P (xs ! k)"
  shows "j \<le> k"
  using findIndex_Some [OF assms(1)] assms(2,3) by (meson not_le)

lemma findIndex_exists:
  "k < length xs \<Longrightarrow> P (xs ! k) \<Longrightarrow> \<exists>j. findIndex P xs = Some j"
  by (cases "findIndex P xs") (auto simp: findIndex_None)

lemma upsert_found:
  assumes c: "find (\<lambda>x. c_username x = u) (customers db1) = Some c"
      and c': "c_id c' = c_id c" "c_username c' = u"
  shows "find (\<lambda>x. c_username x = u) (customers (updateCustomer c' db1)) = Some c'"
proof -
  from c obtain k where k: "findIndex (\<lambda>x. c_username x = u) (customers db1) = Some k"
    and ck: "c = customers db1 ! k"
    by (auto simp: find_findIndex)
  from findIndex_Some [OF k] have klt: "k < length (customers db1)"
    and kfirst: "\<forall>j<k. c_username (customers db1 ! j) \<noteq> u" by auto
  have "c_id (customers db1 ! k) = c_id c'" using ck c' by simp
  with klt obtain j where j: "findIndex (\<lambda>x. c_id x = c_id c') (customers db1) = Some j"
    using findIndex_exists [of k "customers db1" "\<lambda>x. c_id x = c_id c'"] by auto
  have jk: "j \<le> k"
    by (rule findIndex_le [OF j klt]) (simp add: ck c')
  let ?cs = "(customers db1)[j := c']"
  have "find (\<lambda>x. c_username x = u) ?cs = Some (?cs ! j)"
  proof (rule find_first_index)
    show "j < length ?cs" using jk klt by simp
    show "c_username (?cs ! j) = u" using jk klt c' by simp
    show "\<forall>i<j. \<not> c_username (?cs ! i) = u" using kfirst jk by simp
  qed
  moreover have "?cs ! j = c'" using jk klt by simp
  ultimately show ?thesis by (simp add: updateCustomer_def j)
qed

lemma find_append:
  "find P (xs @ ys) = (case find P xs of None \<Rightarrow> find P ys | Some x \<Rightarrow> Some x)"
  by (induction xs) auto

lemma getOrCreateCustomer_found:
  assumes "getOrCreateCustomer now u db = (c, db1)"
  shows "find (\<lambda>x. c_username x = u) (customers db1) = Some c \<and> c_username c = u \<and>
         vipTickets c = ticketsOf u db \<and>
         orders db1 = orders db \<and> products db1 = products db \<and> bales db1 = bales db"
proof (cases "find (\<lambda>x. c_username x = u) (customers db)")
  case None
  then have n: "\<forall>x\<in>set (customers db). c_username x \<noteq> u"
    by (simp add: find_None_iff)
  from None assms have c: "c = \<lparr>c_id = ''c_'' @ now, c_username = u, isVIP = False,
        vipTickets = 0, isBlacklisted = False, totalSpent = 0, orderCount = 0\<rparr>"
    and d: "db1 = db\<lparr>customers := customers db @ [c]\<rparr>"
    by (auto simp: getOrCreateCustomer_def Let_def)
  have "find (\<lambda>x. c_username x = u) (customers db @ [c]) = Some c"
    using n c by (simp add: find_append None)
  then show ?thesis
    using c d None by (simp add: ticketsOf_def)
next
  case (Some a)
  with assms have "c = a" "db1 = db"
    by (auto simp: getOrCreateCustomer_def)
  moreover from Some have "c_username a = u"
    by (auto simp: find_Some_iff)
  ultimately show ?thesis
    using Some by (simp add: ticketsOf_def)
qed

lemma ticketsOf_customers:
  "customers a = customers b \<Longrightarrow> ticketsOf u a = ticketsOf u b"
  by (simp add: ticketsOf_def)

lemma returnTicket_effect:
  "ticketsOf u (returnTicket now u db) = ticketsOf u db + 1 \<and>
   orders (returnTicket now u db) = orders db \<and>
   products (returnTicket now u db) = products db"
proof -
  obtain c db1 where g: "getOrCreateCustomer now u db = (c, db1)"
    by (cases "getOrCreateCustomer now u db")
  note f = getOrCreateCustomer_found [OF g]
  have "find (\<lambda>x. c_username x = u)
          (customers (updateCustomer (c\<lparr>vipTickets := vipTickets c + 1\<rparr>) db1)) =
        Some (c\<lparr>vipTickets := vipTickets c + 1\<rparr>)"
    using f by (intro upsert_found) auto
  moreover have "orders (updateCustomer x db1) = orders db \<and>
                 products (updateCustomer x db1) = products db" for x
    using f by (simp add: updateCustomer_def split: option.splits)
  ultimately show ?thesis
    using f by (simp add: returnTicket_def g ticketsOf_def)
qed

lemma fold_deleteOrder:
  "customers (fold (\<lambda>ord. deleteOrder (o_id ord)) xs db) = customers db \<and>
   products (fold (\<lambda>ord. deleteOrder (o_id ord)) xs db) = products db \<and>
   orders (fold (\<lambda>ord. deleteOrder (o_id ord)) xs db) =
     filter (\<lambda>ord. o_id ord \<notin> o_id ` set xs) (orders db)"
proof (induction xs arbitrary: db)
  case Nil
  then show ?case by simp
next
  case (Cons x xs)
  show ?case
    using deleteOrder_frame [of "o_id x" db]
    by (simp add: Cons.IH)
qed

lemma group_removed:
  "filter (\<lambda>ord. sessionId ord = sid \<and> customerUsername ord = u)
     (filter (\<lambda>ord. o_id ord \<notin> o_id ` set (groupOf sid u db)) (orders db)) = []"
  by (auto simp: groupOf_def filter_empty_conv)

lemma handleManualDelete_effect:
  assumes "deleteTargetUser m = Some u" "u \<noteq> []"
  shows "ticketsOf u (snd (handleManualDelete now m db)) =
           ticketsOf u db + (if list_ex ticketFlag (groupOf (m_sessionId m) u db) then 1 else 0) \<and>
         orders (snd (handleManualDelete now m db)) =
           filter (\<lambda>ord. o_id ord \<notin> o_id ` set (groupOf (m_sessionId m) u db)) (orders db) \<and>
         groupOf (m_sessionId m) u (snd (handleManualDelete now m db)) = []"
proof -
  let ?g = "groupOf (m_sessionId m) u db"
  let ?db1 = "fold (\<lambda>ord. deleteOrder (o_id ord)) ?g db"
  have r: "snd (handleManualDelete now m db) =
           (if list_ex ticketFlag ?g then returnTicket now u ?db1 else ?db1)"
    using assms by (simp add: handleManualDelete_def truthy_def Let_def groupOf_def)
  have t: "ticketsOf u ?db1 = ticketsOf u db"
    by (rule ticketsOf_customers) (simp add: fold_deleteOrder)
  have o: "orders (snd (handleManualDelete now m db)) =
           filter (\<lambda>ord. o_id ord \<notin> o_id ` set ?g) (orders db)"
    by (simp add: r returnTicket_effect fold_deleteOrder)
  have "groupOf (m_sessionId m) u (snd (handleManualDelete now m db)) = []"
    unfolding groupOf_def [of _ _ "snd (handleManualDelete now m db)"] o
    by (rule group_removed)
  with o show ?thesis
    by (simp add: r returnTicket_effect t)
qed

lemma handleEditCustomer_effect:
  assumes s: "session ls = Some sess"
      and g: "groupOf (s_id sess) u db \<noteq> []"
      and ok: "cart ls = [] \<or> username ls = u \<or> confirmAnswer"
  shows "ticketsOf u (snd (handleEditCustomer now confirmAnswer u ls db)) =
           ticketsOf u db + (if list_ex ticketFlag (groupOf (s_id sess) u db) then 1 else 0) \<and>
         orders (snd (handleEditCustomer now confirmAnswer u ls db)) =
           filter (\<lambda>ord. o_id ord \<notin> o_id ` set (groupOf (s_id sess) u db)) (orders db) \<and>
         groupOf (s_id sess) u (snd (handleEditCustomer now confirmAnswer u ls db)) = [] \<and>
         session (fst (handleEditCustomer now confirmAnswer u ls db)) = Some sess \<and>
         useVipTicket (fst (handleEditCustomer now confirmAnswer u ls db)) =
           list_ex ticketFlag (groupOf (s_id sess) u db) \<and>
         map ci_quantity (cart (fst (handleEditCustomer now confirmAnswer u ls db))) =
           map quantity (groupOf (s_id sess) u db)"
proof -
  let ?g = "groupOf (s_id sess) u db"
  let ?db1 = "fold (\<lambda>ord. deleteOrder (o_id ord)) ?g db"
  from g obtain first others where fo: "?g = first # others"
    by (cases ?g) auto
  then have fo': "filter (\<lambda>ord. sessionId ord = s_id sess \<and> customerUsername ord = u) (orders db) =
                  first # others"
    by (simp add: groupOf_def)
  have r: "snd (handleEditCustomer now confirmAnswer u ls db) =
           (if list_ex ticketFlag ?g then returnTicket now u ?db1 else ?db1)"
    using s ok by (auto simp add: handleEditCustomer_def fo' Let_def fo)
  have l: "session (fst (handleEditCustomer now confirmAnswer u ls db)) = Some sess \<and>
           useVipTicket (fst (handleEditCustomer now confirmAnswer u ls db)) = list_ex ticketFlag ?g \<and>
           map ci_quantity (cart (fst (handleEditCustomer now confirmAnswer u ls db))) =
             map quantity ?g"
    using s ok by (auto simp add: handleEditCustomer_def fo' Let_def fo restoredItem_def comp_def)
  have t: "ticketsOf u ?db1 = ticketsOf u db"
    by (rule ticketsOf_customers) (simp add: fold_deleteOrder)
  have o: "orders (snd (handleEditCustomer now confirmAnswer u ls db)) =
           filter (\<lambda>ord. o_id ord \<notin> o_id ` set ?g) (orders db)"
    by (simp add: r returnTicket_effect fold_deleteOrder)
  have "groupOf (s_id sess) u (snd (handleEditCustomer now confirmAnswer u ls db)) = []"
    unfolding groupOf_def [of _ _ "snd (handleEditCustomer now confirmAnswer u ls db)"] o
    by (rule group_removed)
  with o l show ?thesis
    by (simp add: r returnTicket_effect t)
qed

lemma handleEditCustomer_again:
  assumes "session ls = Some sess" "groupOf (s_id sess) u db = []"
  shows "handleEditCustomer now confirmAnswer u ls db = (ls, db)"
  using assms by (simp add: handleEditCustomer_def groupOf_def)

lemma addOrder_tickets:
  "ticketsOf (customerUsername order) (addOrder now order db) =
   ticketsOf (customerUsername order) db"
proof -
  let ?u = "customerUsername order"
  let ?d = "\<lparr>products = [], orders = [], customers = customers db, bales = []\<rparr>"
  obtain c s3 where g: "getOrCreateCustomer now ?u ?d = (c, s3)"
    by (cases "getOrCreateCustomer now ?u ?d")
  note f = getOrCreateCustomer_found [OF g]
  let ?c' = "c\<lparr>orderCount := orderCount c + quantity order,
               totalSpent := totalSpent c + totalPrice order\<rparr>"
  have "find (\<lambda>x. c_username x = ?u) (customers (updateCustomer ?c' s3)) = Some ?c'"
    using f by (intro upsert_found) auto
  then have "find (\<lambda>x. c_username x = ?u) (customers (addOrder now order db)) = Some ?c'"
    by (simp add: addOrder_customers creditedCustomers_def g)
  moreover have "ticketsOf ?u ?d = ticketsOf ?u db"
    by (rule ticketsOf_customers) simp
  ultimately show ?thesis
    using f by (simp add: ticketsOf_def)
qed

lemma checkoutOrder_fields:
  "customerUsername (snd (checkoutOrder sn ts ls sess c item idx)) = username ls \<and>
   sessionId (snd (checkoutOrder sn ts ls sess c item idx)) = s_id sess \<and>
   usedVipTicket (snd (checkoutOrder sn ts ls sess c item idx)) = Some (useVipTicket ls) \<and>
   quantity (snd (checkoutOrder sn ts ls sess c item idx)) = ci_quantity item"
  by (simp add: checkoutOrder_def Let_def)

lemma checkoutItem_tickets:
  "ticketsOf (username ls) (checkoutItem sn ts ls sess c e db) = ticketsOf (username ls) db"
proof -
  obtain pr ord where po: "checkoutOrder sn ts ls sess c (snd e) (fst e) = (pr, ord)"
    by (cases "checkoutOrder sn ts ls sess c (snd e) (fst e)")
  have u: "customerUsername ord = username ls"
    using checkoutOrder_fields [of sn ts ls sess c "snd e" "fst e"] po by simp
  have "ticketsOf (username ls) (addOrder (sn ts) ord (updateProduct pr db)) =
        ticketsOf (username ls) (updateProduct pr db)"
    using addOrder_tickets [of ord "sn ts" "updateProduct pr db"] u by simp
  also have "\<dots> = ticketsOf (username ls) db"
    by (rule ticketsOf_customers) (simp add: updateProduct_frame)
  finally show ?thesis
    by (simp add: checkoutItem_def po)
qed

lemma checkout_fold_tickets:
  "ticketsOf (username ls) (fold (checkoutItem sn ts ls sess c) xs db) = ticketsOf (username ls) db"
  by (induction xs arbitrary: db) (simp_all add: checkoutItem_tickets)

lemma handleCheckout_tickets:
  assumes acc: "checkoutAccepted sn ts ls db" and sess: "session ls = Some sess"
  shows "ticketsOf (username ls) (snd (handleCheckout sn ts ls db)) =
           ticketsOf (username ls) db - (if useVipTicket ls then 1 else 0) \<and>
         (\<exists>c. orders (snd (handleCheckout sn ts ls db)) =
           orders db @ map (\<lambda>e. snd (checkoutOrder sn ts ls sess c (snd e) (fst e)))
                          (enumerate 0 (cart ls)))"
proof -
  obtain customer db1 where g: "getOrCreateCustomer (sn ts) (username ls) db = (customer, db1)"
    by (cases "getOrCreateCustomer (sn ts) (username ls) db")
  note f = getOrCreateCustomer_found [OF g]
  have a: "\<not> isBlacklisted customer"
    "\<not> (useVipTicket ls \<and> vipDiscountType ls = FIXED \<and> vipDiscount ls > cartTotal (cart ls))"
    "\<not> (useVipTicket ls \<and> \<not> vipTickets customer > 0)" "username ls \<noteq> []"
    using acc g by (auto simp: checkoutAccepted_def)
  let ?c' = "customer\<lparr>vipTickets := vipTickets customer - 1\<rparr>"
  show ?thesis
  proof (cases "useVipTicket ls")
    case True
    have r: "snd (handleCheckout sn ts ls db) =
             fold (checkoutItem sn ts ls sess ?c') (enumerate 0 (cart ls)) (updateCustomer ?c' db1)"
      using a sess g True by (auto simp add: handleCheckout_def Let_def)
    have "find (\<lambda>x. c_username x = username ls) (customers (updateCustomer ?c' db1)) = Some ?c'"
      using f by (intro upsert_found) auto
    then have t: "ticketsOf (username ls) (updateCustomer ?c' db1) = ticketsOf (username ls) db - 1"
      using f by (simp add: ticketsOf_def)
    have o: "orders (updateCustomer ?c' db1) = orders db"
      using f by (simp add: updateCustomer_def split: option.splits)
    show ?thesis
      unfolding r using True by (auto simp: checkout_fold_tickets t checkout_fold_orders o)
  next
    case False
    have r: "snd (handleCheckout sn ts ls db) =
             fold (checkoutItem sn ts ls sess customer) (enumerate 0 (cart ls)) db1"
      using a sess g False by (auto simp add: handleCheckout_def Let_def)
    have t: "ticketsOf (username ls) db1 = ticketsOf (username ls) db"
      using f by (simp add: ticketsOf_def)
    show ?thesis
      unfolding r using False f by (auto simp: checkout_fold_tickets t checkout_fold_orders)
  qed
qed

lemma handleCheckout_group_flagged:
  assumes acc: "checkoutAccepted sn ts ls db" and sess: "session ls = Some sess"
      and v: "useVipTicket ls" and ne: "cart ls \<noteq> []"
  shows "list_ex ticketFlag (groupOf (s_id sess) (username ls) (snd (handleCheckout sn ts ls db)))"
proof -
  from handleCheckout_tickets [OF acc sess] obtain c where
    o: "orders (snd (handleCheckout sn ts ls db)) =
           orders db @ map (\<lambda>e. snd (checkoutOrder sn ts ls sess c (snd e) (fst e)))
                          (enumerate 0 (cart ls))"
    by blast
  from ne obtain e where e: "e \<in> set (enumerate 0 (cart ls))"
    by (cases "cart ls") auto
  let ?ord = "snd (checkoutOrder sn ts ls sess c (snd e) (fst e))"
  have "?ord \<in> set (groupOf (s_id sess) (username ls) (snd (handleCheckout sn ts ls db)))"
    using e checkoutOrder_fields [of sn ts ls sess c "snd e" "fst e"]
    by (auto simp: groupOf_def o)
  moreover have "ticketFlag ?ord"
    using v checkoutOrder_fields [of sn ts ls sess c "snd e" "fst e"]
    by (simp add: ticketFlag_def)
  ultimately show ?thesis
    by (auto simp: list_ex_iff)
qed

lemma handleCheckout_state:
  assumes acc: "checkoutAccepted sn ts ls db"
  shows "session (fst (handleCheckout sn ts ls db)) = session ls \<and>
         cart (fst (handleCheckout sn ts ls db)) = []"
proof -
  obtain customer db1 where g: "getOrCreateCustomer (sn ts) (username ls) db = (customer, db1)"
    by (cases "getOrCreateCustomer (sn ts) (username ls) db")
  from acc obtain sess where "session ls = Some sess"
    by (auto simp: checkoutAccepted_def)
  then show ?thesis
    using acc g by (auto simp: checkoutAccepted_def handleCheckout_def Let_def)
qed

text \<open>
  Claim C9 (amended).  Deleting the orders of a customer in a session returns exactly one
  ticket when at least one of these orders used a ticket (none otherwise), however many
  orders there are, and leaves no order of the group.  Starting the edit of such a group
  does the same, and editing again before anything is saved changes nothing.  A checkout
  with a ticket takes one ticket, and deleting or editing the customer's group afterwards
  brings the count back to what it was before that checkout.  The ticket is returned per
  group, not per checkout.
\<close>

theorem vip_ticket_return:
  assumes tgt: "deleteTargetUser m = Some u" and ne: "u \<noteq> []"
      and sess: "session ls = Some sess"
  shows "ticketsOf u (snd (handleManualDelete now m db)) =
           ticketsOf u db + (if list_ex ticketFlag (groupOf (m_sessionId m) u db) then 1 else 0) \<and>
         groupOf (m_sessionId m) u (snd (handleManualDelete now m db)) = [] \<and>
         (groupOf (s_id sess) u db \<noteq> [] \<and> (cart ls = [] \<or> username ls = u \<or> confirmAnswer) \<longrightarrow>
            ticketsOf u (snd (handleEditCustomer now confirmAnswer u ls db)) =
              ticketsOf u db + (if list_ex ticketFlag (groupOf (s_id sess) u db) then 1 else 0) \<and>
            groupOf (s_id sess) u (snd (handleEditCustomer now confirmAnswer u ls db)) = [] \<and>
            handleEditCustomer now' confirmAnswer' u
                (fst (handleEditCustomer now confirmAnswer u ls db))
                (snd (handleEditCustomer now confirmAnswer u ls db)) =
              handleEditCustomer now confirmAnswer u ls db) \<and>
         (checkoutAccepted showNum ts ls db \<and> useVipTicket ls \<and> cart ls \<noteq> [] \<and>
          username ls = u \<and> m_sessionId m = s_id sess \<longrightarrow>
            ticketsOf u (snd (handleCheckout showNum ts ls db)) = ticketsOf u db - 1 \<and>
            ticketsOf u (snd (handleManualDelete now m (snd (handleCheckout showNum ts ls db)))) =
              ticketsOf u db \<and>
            ticketsOf u (snd (handleEditCustomer now confirmAnswer u
                               (fst (handleCheckout showNum ts ls db))
                               (snd (handleCheckout showNum ts ls db)))) = ticketsOf u db)"
proof (intro conjI impI)
  note d = handleManualDelete_effect [OF tgt ne]
  from d show "ticketsOf u (snd (handleManualDelete now m db)) =
           ticketsOf u db + (if list_ex ticketFlag (groupOf (m_sessionId m) u db) then 1 else 0)"
    by blast
  from d show "groupOf (m_sessionId m) u (snd (handleManualDelete now m db)) = []"
    by blast
next
  assume a: "groupOf (s_id sess) u db \<noteq> [] \<and> (cart ls = [] \<or> username ls = u \<or> confirmAnswer)"
  then have g: "groupOf (s_id sess) u db \<noteq> []"
    and ok: "cart ls = [] \<or> username ls = u \<or> confirmAnswer" by auto
  note e = handleEditCustomer_effect [OF sess g ok, of now]
  from e show "ticketsOf u (snd (handleEditCustomer now confirmAnswer u ls db)) =
              ticketsOf u db + (if list_ex ticketFlag (groupOf (s_id sess) u db) then 1 else 0)"
    by blast
  from e show "groupOf (s_id sess) u (snd (handleEditCustomer now confirmAnswer u ls db)) = []"
    by blast
  from e have "session (fst (handleEditCustomer now confirmAnswer u ls db)) = Some sess"
    and "groupOf (s_id sess) u (snd (handleEditCustomer now confirmAnswer u ls db)) = []"
    by blast+
  then have "handleEditCustomer now' confirmAnswer' u
                (fst (handleEditCustomer now confirmAnswer u ls db))
                (snd (handleEditCustomer now confirmAnswer u ls db)) =
             (fst (handleEditCustomer now confirmAnswer u ls db),
              snd (handleEditCustomer now confirmAnswer u ls db))"
    by (rule handleEditCustomer_again)
  then show "handleEditCustomer now' confirmAnswer' u
                (fst (handleEditCustomer now confirmAnswer u ls db))
                (snd (handleEditCustomer now confirmAnswer u ls db)) =
              handleEditCustomer now confirmAnswer u ls db"
    by simp
next
  assume a: "checkoutAccepted showNum ts ls db \<and> useVipTicket ls \<and> cart ls \<noteq> [] \<and>
          username ls = u \<and> m_sessionId m = s_id sess"
  then have acc: "checkoutAccepted showNum ts ls db" and v: "useVipTicket ls"
    and c: "cart ls \<noteq> []" and un: "username ls = u" and ms: "m_sessionId m = s_id sess"
    by auto
  let ?ls' = "fst (handleCheckout showNum ts ls db)"
  let ?db' = "snd (handleCheckout showNum ts ls db)"
  have t: "ticketsOf u ?db' = ticketsOf u db - 1"
    using handleCheckout_tickets [OF acc sess] v un by simp
  have fl: "list_ex ticketFlag (groupOf (s_id sess) u ?db')"
    using handleCheckout_group_flagged [OF acc sess v c] un by simp
  then have gne: "groupOf (s_id sess) u ?db' \<noteq> []"
    by auto
  from t show "ticketsOf u ?db' = ticketsOf u db - 1" .
  show "ticketsOf u (snd (handleManualDelete now m ?db')) = ticketsOf u db"
    using handleManualDelete_effect [OF tgt ne, of now ?db'] fl t ms by simp
  have s': "session ?ls' = Some sess" and c': "cart ?ls' = [] \<or> username ?ls' = u \<or> confirmAnswer"
    using handleCheckout_state [OF acc] sess by simp_all
  show "ticketsOf u (snd (handleEditCustomer now confirmAnswer u ?ls' ?db')) = ticketsOf u db"
    using handleEditCustomer_effect [OF s' gne c', of now] fl t by simp
qed

theorem vip_ticket_return_witness:
  "deleteTargetUser ex_modal = Some ''ana'' \<and> ''ana'' \<noteq> [] \<and>
   session ex_ticket_live = Some ex_session \<and>
   groupOf (s_id ex_session) ''ana'' ex_flagged_store \<noteq> [] \<and>
   username ex_ticket_live = ''ana'' \<and>
   checkoutAccepted ex_showNum 5 ex_ticket_live (ex_store OnSale 10 []) \<and>
   useVipTicket ex_ticket_live \<and> cart ex_ticket_live \<noteq> [] \<and>
   m_sessionId ex_modal = s_id ex_session \<and>
   ticketsOf ''ana'' ex_flagged_store = 2 \<and>
   ticketsOf ''ana'' (snd (handleManualDelete ''7'' ex_modal ex_flagged_store)) = 3 \<and>
   ticketsOf ''ana'' (snd (handleEditCustomer ''7'' False ''ana'' ex_ticket_live ex_flagged_store)) = 3 \<and>
   ticketsOf ''ana'' (snd (handleCheckout ex_showNum 5 ex_ticket_live (ex_store OnSale 10 []))) = 1 \<and>
   ticketsOf ''ana'' (snd (handleManualDelete ''7'' ex_modal
      (snd (handleCheckout ex_showNum 5 ex_ticket_live (ex_store OnSale 10 []))))) = 2"
proof -
  have h1: "deleteTargetUser ex_modal = Some ''ana''" and h2: "''ana'' \<noteq> []"
    and h3: "session ex_ticket_live = Some ex_session"
    by (simp_all add: ex_modal_def ex_ticket_live_def ex_live_def)
  have g: "groupOf (s_id ex_session) ''ana'' ex_flagged_store =
           [(ex_order ''o1'' 1 PENDING)\<lparr>usedVipTicket := Some True\<rparr>]"
    by (simp add: groupOf_def ex_flagged_store_def ex_defs ex_session_def)
  have gm: "groupOf (m_sessionId ex_modal) ''ana'' ex_flagged_store =
           [(ex_order ''o1'' 1 PENDING)\<lparr>usedVipTicket := Some True\<rparr>]"
    by (simp add: groupOf_def ex_flagged_store_def ex_defs ex_modal_def)
  have fl: "ticketFlag ((ex_order ''o1'' 1 PENDING)\<lparr>usedVipTicket := Some True\<rparr>)"
    by (simp add: ticketFlag_def)
  have u: "username ex_ticket_live = ''ana''" "useVipTicket ex_ticket_live"
    "cart ex_ticket_live \<noteq> []" "m_sessionId ex_modal = s_id ex_session"
    by (simp_all add: ex_ticket_live_def ex_live_def ex_modal_def ex_session_def)
  have acc: "checkoutAccepted ex_showNum 5 ex_ticket_live (ex_store OnSale 10 [])"
    by (simp add: checkoutAccepted_def ex_ticket_live_def ex_live_defs ex_defs
          getOrCreateCustomer_def cartTotal_def)
  have t0: "ticketsOf ''ana'' ex_flagged_store = 2" "ticketsOf ''ana'' (ex_store OnSale 10 []) = 2"
    by (simp_all add: ticketsOf_def ex_flagged_store_def ex_defs)
  note a = vip_ticket_return [OF h1 h2 h3, of "''7''" ex_flagged_store False "''8''" True
             ex_showNum 5, unfolded g gm]
  note b = vip_ticket_return [OF h1 h2 h3, of "''7''" "ex_store OnSale 10 []" False "''8''" True
             ex_showNum 5]
  have r1: "ticketsOf ''ana'' (snd (handleManualDelete ''7'' ex_modal ex_flagged_store)) = 3"
    using a fl t0 by simp
  have r2: "ticketsOf ''ana'' (snd (handleEditCustomer ''7'' False ''ana'' ex_ticket_live ex_flagged_store)) = 3"
    using a fl t0 u by simp
  have r3: "ticketsOf ''ana'' (snd (handleCheckout ex_showNum 5 ex_ticket_live (ex_store OnSale 10 []))) = 1 \<and>
            ticketsOf ''ana'' (snd (handleManualDelete ''7'' ex_modal
              (snd (handleCheckout ex_showNum 5 ex_ticket_live (ex_store OnSale 10 []))))) = 2"
    using b acc u t0 by simp
  from h1 h2 h3 g u acc t0 r1 r2 r3 show ?thesis by simp
qed

text \<open>
  Two checkouts with a ticket by one customer in one session take two tickets; the
  deletion of the customer's orders removes the orders of both and returns one.
\<close>

theorem vip_ticket_two_checkouts_counterexample:
  "ticketsOf ''ana'' (ex_store OnSale 10 []) = 2 \<and>
   ticketsOf ''ana'' (snd (handleCheckout ex_showNum 5 ex_ticket_live (ex_store OnSale 10 []))) = 1 \<and>
   ticketsOf ''ana'' (snd (handleCheckout ex_showNum 6 ex_ticket_live
      (snd (handleCheckout ex_showNum 5 ex_ticket_live (ex_store OnSale 10 []))))) = 0 \<and>
   ticketsOf ''ana'' (snd (handleManualDelete ''7'' ex_modal
      (snd (handleCheckout ex_showNum 6 ex_ticket_live
         (snd (handleCheckout ex_showNum 5 ex_ticket_live (ex_store OnSale 10 []))))))) = 1 \<and>
   orders (snd (handleManualDelete ''7'' ex_modal
      (snd (handleCheckout ex_showNum 6 ex_ticket_live
         (snd (handleCheckout ex_showNum 5 ex_ticket_live (ex_store OnSale 10 []))))))) = []"
  by (simp add: ex_ticket_live_def ex_modal_def ex_live_defs ex_defs ticketsOf_def
        handleCheckout_def handleManualDelete_def checkoutItem_def checkoutOrder_def
        getOrCreateCustomer_def updateCustomer_def updateProduct_def addOrder_def
        deleteOrder_def refreshBaleStatus_def soldCount_def newBaleStatus_def returnTicket_def
        truthy_def ticketFlag_def discountOf_def calculatedDiscount_def cartTotal_def
        finalTotalOf_def finalTotal_def Let_def)

section \<open>Claims about the audit log\<close>

subsection \<open>Splitting and joining\<close>










subsection \<open>Where a separator can start\<close>










lemma splitChanges_nonempty: "splitChanges s \<noteq> []"
  by (induction s rule: splitChanges.induct) (auto split: list.splits)









subsection \<open>The round trip\<close>











end
